theory Spec2Isabelle
  imports Complex_Main "HOL-Library.Word" "HOL-Library.Product_Lexorder" "HOL-Library.Multiset"
begin

section \<open>Data model\<close>

text \<open>
  The renderer of go-tiled (package \<open>render\<close>) works on the map model of package
  \<open>tiled\<close> and draws through the image libraries \<open>ebiten\<close> and \<open>imaging\<close>.
  Only the fields and methods that the renderer reads are modelled; the pointers of
  the map model (layers, groups, objects, the tileset of a tile) are taken to be
  non-nil.

  Go's \<open>int\<close> is a 64-bit two's complement integer: values are HOL integers and the
  wrap-around is written out by \<open>wrap64\<close> where the renderer multiplies. \<open>uint32\<close> is
  \<open>32 word\<close>.

  A \<open>float64\<close> or \<open>float32\<close> value is NaN, an infinity or a finite value, which is
  read as the real number it denotes (the two zeros are one value; Go's comparisons
  do not tell them apart). A float that the renderer computes is kept as the
  expression that computes it (\<open>f64\<close>), so that no rounding is asserted.
\<close>

type_synonym uint32 = "32 word"
type_synonym bytes = string

definition wrap64 :: "int \<Rightarrow> int" where
  "wrap64 n = sint (word_of_int n :: 64 word)"

datatype float = NaN | NegInf | Finite real | PosInf

text \<open>Go's \<open><\<close> and \<open>!=\<close> on floats: every comparison with NaN but \<open>!=\<close> is false.\<close>

fun float_less :: "float \<Rightarrow> float \<Rightarrow> bool" where
  "float_less NaN b = False"
| "float_less a NaN = False"
| "float_less PosInf b = False"
| "float_less a NegInf = False"
| "float_less NegInf b = True"
| "float_less a PosInf = True"
| "float_less (Finite x) (Finite y) = (x < y)"

definition float_neq :: "float \<Rightarrow> float \<Rightarrow> bool" where
  "float_neq a b = (a = NaN \<or> b = NaN \<or> a \<noteq> b)"

datatype f64 =
    Val float
  | Float64 int
  | Times f64 f64
  | Quot f64 f64
  | Pi

datatype error =
    ErrUnsupportedOrientation
  | ErrUnsupportedRenderOrder
  | ErrOutOfBounds
  | ErrTileImageNotFound uint32
  | Foreign string
  | Panic

record Rectangle =
  MinX :: int
  MinY :: int
  MaxX :: int
  MaxY :: int

text \<open>
  An image is the decoded raster of a file, or the result of one of the library calls
  the renderer makes on an image: \<open>EbitenImage\<close> is the image that a successful
  \<open>ebiten.NewImageFromImage\<close> returns.
\<close>

datatype Image =
    Raster bytes
  | EbitenImage Image
  | SubImage Image Rectangle
  | FlipH Image
  | FlipV Image
  | Rotate270 Image

text \<open>
  \<open>ebiten.GeoM\<close>: the zero value is the identity; \<open>Translate\<close>, \<open>Scale\<close> and
  \<open>Rotate\<close> each compose one more step after the steps already in the matrix. The
  matrix is modelled as the sequence of steps composed so far, first step first.
\<close>

datatype geo_step =
    TranslateStep f64 f64
  | ScaleStep f64 f64
  | RotateStep f64

type_synonym GeoM = "geo_step list"

definition GeoM_zero :: GeoM where
  "GeoM_zero = []"

definition Translate :: "f64 \<Rightarrow> f64 \<Rightarrow> GeoM \<Rightarrow> GeoM" where
  "Translate tx ty g = g @ [TranslateStep tx ty]"

definition Scale :: "f64 \<Rightarrow> f64 \<Rightarrow> GeoM \<Rightarrow> GeoM" where
  "Scale x y g = g @ [ScaleStep x y]"

definition Rotate :: "f64 \<Rightarrow> GeoM \<Rightarrow> GeoM" where
  "Rotate theta g = g @ [RotateStep theta]"

text \<open>
  Modelled from the spec: the types of package \<open>tiled\<close> (\<open>Map\<close>, \<open>Layer\<close>,
  \<open>ObjectGroup\<close>, \<open>Group\<close>, \<open>Object\<close>, \<open>LayerTile\<close>, \<open>Tileset\<close>,
  \<open>TilesetTile\<close> and the image reference of a tileset), whose declarations are not
  among the sources. The data model of the spec names them; the fields are those
  that the renderer reads, with the types that its expressions give them.
\<close>

record ImageRef =
  Source :: string

record Tileset =
  Name :: string
  FirstGID :: uint32
  TileCount :: int
  Image :: "ImageRef option"

record LayerTile =
  ID :: uint32
  Tileset :: Tileset
  HorizontalFlip :: bool
  VerticalFlip :: bool
  DiagonalFlip :: bool
  Nil :: bool

record Object =
  GID :: uint32
  X :: float
  Y :: float
  Width :: float
  Height :: float
  Rotation :: float
  Visible :: bool

record Layer =
  Visible :: bool
  Opacity :: float
  Tiles :: "LayerTile list"

record ObjectGroup =
  Visible :: bool
  Opacity :: float
  Objects :: "Object list"

record Group =
  Visible :: bool
  Layers :: "Layer list"
  ObjectGroups :: "ObjectGroup list"

record Map =
  Orientation :: string
  RenderOrder :: string
  Width :: int
  Height :: int
  TileWidth :: int
  TileHeight :: int
  Layers :: "Layer list"
  ObjectGroups :: "ObjectGroup list"
  Groups :: "Group list"

record TilesetTile =
  Image :: "ImageRef option"

text \<open>
  What the renderer calls outside its own package is a parameter of the model: the
  methods of package \<open>tiled\<close>, the operating system's files, \<open>image.Decode\<close>, the
  size of an image's bounds, and the integer that the conversion \<open>int(v)\<close> gives for
  a float that no \<open>int\<close> represents, which Go leaves to the implementation. A file
  system (\<open>fs.FS\<close>) is its \<open>Open\<close>.
\<close>

type_synonym FS = "string \<Rightarrow> error + bytes"

record Env =
  GetFileFullPath :: "Tileset \<Rightarrow> string \<Rightarrow> string"
  GetTileRect :: "Tileset \<Rightarrow> uint32 \<Rightarrow> Rectangle"
  GetTilesetTile :: "Tileset \<Rightarrow> uint32 \<Rightarrow> error + TilesetTile"
  TileGIDToTile :: "Map \<Rightarrow> uint32 \<Rightarrow> error + LayerTile"
  os_Open :: FS
  image_Decode :: "bytes \<Rightarrow> error + Image"
  Bounds_Size :: "Image \<Rightarrow> int \<times> int"
  unrepresentable_int :: "float \<Rightarrow> int"

text \<open>\<open>filepath.FromSlash\<close> and \<open>filepath.ToSlash\<close> where the separator is the slash.\<close>

definition FromSlash :: "string \<Rightarrow> string" where
  "FromSlash f = f"

definition ToSlash :: "string \<Rightarrow> string" where
  "ToSlash f = f"

section \<open>The drawing library\<close>

text \<open>
  \<open>ebiten.Image\<close> as a drawing target: its size and the draw calls made on it, oldest
  first. A draw call holds the source image, the \<open>GeoM\<close> and the alpha of the
  \<open>ColorScale\<close> of its options.

  \<open>ebiten.NewImage\<close> builds the rectangle from the origin to \<open>(width, height)\<close>, which
  puts a negative side in order, and panics when a side of it is zero.
  \<open>ebiten.NewImageFromImage\<close> allocates an image of the size of the source's bounds in
  the same way, so it panics for a source with an empty side.
\<close>

record Canvas =
  canvas_width :: int
  canvas_height :: int
  draws :: "(Image \<times> GeoM \<times> float) list"

definition NewImage :: "int \<Rightarrow> int \<Rightarrow> error + Canvas" where
  "NewImage width height =
     (if width = 0 \<or> height = 0 then Inl Panic
      else Inr \<lparr>canvas_width = \<bar>width\<bar>, canvas_height = \<bar>height\<bar>, draws = []\<rparr>)"

definition NewImageFromImage :: "Env \<Rightarrow> Image \<Rightarrow> error + Image" where
  "NewImageFromImage env source =
     (case Bounds_Size env source of
        (width, height) \<Rightarrow>
          if width = 0 \<or> height = 0 then Inl Panic else Inr (EbitenImage source))"

definition DrawImage :: "Image \<Rightarrow> GeoM \<Rightarrow> float \<Rightarrow> Canvas \<Rightarrow> Canvas" where
  "DrawImage img geom alpha c = c\<lparr>draws := draws c @ [(img, geom, alpha)]\<rparr>"

section \<open>The orthogonal engine\<close>

record OrthogonalRendererEngine =
  engine_m :: Map

definition Init :: "Map \<Rightarrow> OrthogonalRendererEngine" where
  "Init mp = \<lparr>engine_m = mp\<rparr>"

definition GetFinalImageSize :: "OrthogonalRendererEngine \<Rightarrow> int \<times> int" where
  "GetFinalImageSize e =
     (wrap64 (Map.Width (engine_m e) * TileWidth (engine_m e)),
      wrap64 (Map.Height (engine_m e) * TileHeight (engine_m e)))"

definition RotateTileImage :: "OrthogonalRendererEngine \<Rightarrow> LayerTile \<Rightarrow> Image \<Rightarrow> Image" where
  "RotateTileImage e tile img =
     (let timg = img;
          timg = (if DiagonalFlip tile then FlipH (Rotate270 timg) else timg);
          timg = (if HorizontalFlip tile then FlipH timg else timg);
          timg = (if VerticalFlip tile then FlipV timg else timg)
      in timg)"

definition GetTilePosition :: "OrthogonalRendererEngine \<Rightarrow> int \<Rightarrow> int \<Rightarrow> GeoM" where
  "GetTilePosition e x y =
     (let res = GeoM_zero;
          res = Translate
                  (Float64 (wrap64 (x * TileWidth (engine_m e))))
                  (Float64 (wrap64 (y * TileHeight (engine_m e))))
                  res;
          res = Scale
                  (Float64 (wrap64 (wrap64 (x + 1) * TileWidth (engine_m e))))
                  (Float64 (wrap64 (wrap64 (y + 1) * TileHeight (engine_m e))))
                  res
      in res)"

section \<open>The renderer\<close>

record Renderer =
  m :: Map
  Result :: Canvas
  tileCache :: "uint32 \<rightharpoonup> Image"
  engine :: OrthogonalRendererEngine
  fs :: "FS option"

text \<open>
  A method that touches files takes the trace of the paths opened so far and returns
  it extended; a method of the renderer returns the renderer as it leaves it, also
  when it returns an error or panics.
\<close>

type_synonym trace = "string list"

definition Clear :: "Renderer \<Rightarrow> error + Renderer" where
  "Clear r =
     (case GetFinalImageSize (engine r) of
        (width, height) \<Rightarrow>
          (case NewImage width height of
             Inl err \<Rightarrow> Inl err
           | Inr c \<Rightarrow> Inr (r\<lparr>Result := c\<rparr>)))"

text \<open>
  The constructor sets the map, an empty tile cache, the file system and the engine,
  and ends with \<open>Clear\<close>, which sets \<open>Result\<close>: the canvas is written here as
  \<open>Clear\<close> computes it.
\<close>

definition NewRendererWithFileSystem :: "Map \<Rightarrow> FS option \<Rightarrow> trace \<Rightarrow> (error + Renderer) \<times> trace" where
  "NewRendererWithFileSystem mp fsys tr =
     (if Orientation mp = ''orthogonal''
      then (let e = Init mp in
            case GetFinalImageSize e of
              (width, height) \<Rightarrow>
                (case NewImage width height of
                   Inl err \<Rightarrow> (Inl err, tr)
                 | Inr c \<Rightarrow>
                     (Inr \<lparr>m = mp, Result = c, tileCache = Map.empty, engine = e, fs = fsys\<rparr>,
                      tr)))
      else (Inl ErrUnsupportedOrientation, tr))"


definition Renderer_open :: "Env \<Rightarrow> Renderer \<Rightarrow> string \<Rightarrow> trace \<Rightarrow> (error + bytes) \<times> trace" where
  "Renderer_open env r f tr =
     (case fs r of
        None \<Rightarrow> (os_Open env (FromSlash f), tr @ [FromSlash f])
      | Some fsys \<Rightarrow> (fsys (ToSlash f), tr @ [ToSlash f]))"

definition getTileImageFromTile ::
  "Env \<Rightarrow> LayerTile \<Rightarrow> trace \<Rightarrow> Renderer \<Rightarrow> (error + Image) \<times> trace \<times> Renderer" where
  "getTileImageFromTile env tile tr r =
     (case GetTilesetTile env (Tileset tile) (ID tile) of
        Inl err \<Rightarrow> (Inl err, tr, r)
      | Inr tilesetTile \<Rightarrow>
         (case TilesetTile.Image tilesetTile of
            None \<Rightarrow> (Inl Panic, tr, r)
          | Some ref \<Rightarrow>
             (case Renderer_open env r (GetFileFullPath env (Tileset tile) (Source ref)) tr of
                (Inl err, tr1) \<Rightarrow> (Inl err, tr1, r)
              | (Inr sf, tr1) \<Rightarrow>
                 (case image_Decode env sf of
                    Inl err \<Rightarrow> (Inl err, tr1, r)
                  | Inr img \<Rightarrow>
                     (case NewImageFromImage env img of
                        Inl err \<Rightarrow> (Inl err, tr1, r)
                      | Inr timg \<Rightarrow>
                         (let r1 = r\<lparr>tileCache :=
                                 (tileCache r)(FirstGID (Tileset tile) + ID tile \<mapsto> timg)\<rparr>
                          in (Inr (RotateTileImage (engine r1) tile timg), tr1, r1)))))))"

text \<open>
  The loop of \<open>getTileImageFromTileset\<close> that precaches every tile of the tileset:
  \<open>i\<close> runs from 0 while \<open>i < uint32(TileCount)\<close>; the loop's state is the tile
  cache and \<open>timg\<close>. The image that the loop copies for the requested tile is the
  entry it has just stored. A panic of the copy leaves the cache as the loop has
  filled it so far.
\<close>

function precache ::
  "Env \<Rightarrow> LayerTile \<Rightarrow> Image \<Rightarrow> uint32 \<Rightarrow> (uint32 \<rightharpoonup> Image) \<Rightarrow> Image option
     \<Rightarrow> (error + Image option) \<times> (uint32 \<rightharpoonup> Image)" where
  "precache env tile eimg i cache timg =
     (if i < word_of_int (TileCount (Tileset tile))
      then (let rect = GetTileRect env (Tileset tile) i;
                cache1 = cache(i + FirstGID (Tileset tile) \<mapsto> SubImage eimg rect)
            in if ID tile = i
               then (case NewImageFromImage env (SubImage eimg rect) of
                       Inl err \<Rightarrow> (Inl err, cache1)
                     | Inr t \<Rightarrow> precache env tile eimg (i + 1) cache1 (Some t))
               else precache env tile eimg (i + 1) cache1 timg)
      else (Inr timg, cache))"
  by pat_completeness auto
termination
proof -
  have step: "unat n - unat (i + 1) < unat n - unat i" if lt: "i < n" for i n :: uint32
  proof -
    from lt have "i \<noteq> - 1"
      by (metis word_order.extremum_strict)
    then have "1 + i \<noteq> 0"
      by (metis add_eq_0_iff)
    then have "unat (i + 1) = Suc (unat i)"
      by (simp add: unatSuc add.commute)
    moreover from lt have "unat i < unat n"
      by (simp add: word_less_nat_alt)
    ultimately show ?thesis
      by simp
  qed
  show ?thesis
    by (relation "measure (\<lambda>(env, tile, eimg, i, cache, timg).
                    unat (word_of_int (TileCount (Tileset tile)) :: uint32) - unat i)")
       (simp_all add: step)
qed

declare precache.simps [simp del]

definition getTileImageFromTileset ::
  "Env \<Rightarrow> LayerTile \<Rightarrow> trace \<Rightarrow> Renderer \<Rightarrow> (error + Image) \<times> trace \<times> Renderer" where
  "getTileImageFromTileset env tile tr r =
     (case Tileset.Image (Tileset tile) of
        None \<Rightarrow> (Inl Panic, tr, r)
      | Some ref \<Rightarrow>
         (case Renderer_open env r (GetFileFullPath env (Tileset tile) (Source ref)) tr of
            (Inl err, tr1) \<Rightarrow> (Inl err, tr1, r)
          | (Inr sf, tr1) \<Rightarrow>
             (case image_Decode env sf of
                Inl err \<Rightarrow> (Inl err, tr1, r)
              | Inr img \<Rightarrow>
                 (case NewImageFromImage env img of
                    Inl err \<Rightarrow> (Inl err, tr1, r)
                  | Inr eimg \<Rightarrow>
                     (case precache env tile eimg 0 (tileCache r) None of
                        (Inl err, cache1) \<Rightarrow> (Inl err, tr1, r\<lparr>tileCache := cache1\<rparr>)
                      | (Inr timg, cache1) \<Rightarrow>
                          (let r1 = r\<lparr>tileCache := cache1\<rparr> in
                           case timg of
                             Some t \<Rightarrow> (Inr (RotateTileImage (engine r1) tile t), tr1, r1)
                           | None \<Rightarrow> (Inl (ErrTileImageNotFound (ID tile)), tr1, r1)))))))"

definition getTileImage ::
  "Env \<Rightarrow> LayerTile \<Rightarrow> trace \<Rightarrow> Renderer \<Rightarrow> (error + Image) \<times> trace \<times> Renderer" where
  "getTileImage env tile tr r =
     (case tileCache r (FirstGID (Tileset tile) + ID tile) of
        Some timg \<Rightarrow>
          (case NewImageFromImage env timg of
             Inl err \<Rightarrow> (Inl err, tr, r)
           | Inr res \<Rightarrow> (Inr (RotateTileImage (engine r) tile res), tr, r))
      | None \<Rightarrow>
          (if Tileset.Image (Tileset tile) = None
           then getTileImageFromTile env tile tr r
           else getTileImageFromTileset env tile tr r))"

text \<open>
  Modelled from the spec: \<open>LayerTile.IsNil\<close> of package \<open>tiled\<close>, which is not among
  the sources. The spec has a tile reference that is nil stand for an empty cell, which
  the renderer skips; the flag of the tile is the field \<open>Nil\<close>.
\<close>

definition IsNil :: "LayerTile \<Rightarrow> bool" where
  "IsNil tile = Nil tile"

text \<open>
  The two loops of \<open>_renderLayer\<close>. The increments \<open>xi\<close> and \<open>yi\<close> are 1 on the only
  path that reaches the loops, so \<open>x*xi < xe\<close> is \<open>x < xe\<close>. The inner loop returns
  the tile index \<open>i\<close> it has reached; an index beyond \<open>layer.Tiles\<close> panics.
\<close>

function renderLayer_row ::
  "Env \<Rightarrow> Layer \<Rightarrow> int \<Rightarrow> int \<Rightarrow> int \<Rightarrow> nat \<Rightarrow> trace \<Rightarrow> Renderer
     \<Rightarrow> (error + nat) \<times> trace \<times> Renderer" where
  "renderLayer_row env layer y x xe i tr r =
     (if x < xe
      then (if length (Tiles layer) \<le> i then (Inl Panic, tr, r)
            else if IsNil (Tiles layer ! i)
            then renderLayer_row env layer y (x + 1) xe (i + 1) tr r
            else (case getTileImage env (Tiles layer ! i) tr r of
                    (Inl err, tr1, r1) \<Rightarrow> (Inl err, tr1, r1)
                  | (Inr img, tr1, r1) \<Rightarrow>
                      (let geom = GetTilePosition (engine r1) x y;
                           r2 = r1\<lparr>Result := DrawImage img geom (Layer.Opacity layer) (Result r1)\<rparr>
                       in renderLayer_row env layer y (x + 1) xe (i + 1) tr1 r2)))
      else (Inr i, tr, r))"
  by pat_completeness auto
termination
  by (relation "measure (\<lambda>(env, layer, y, x, xe, i, tr, r). nat (xe - x))") auto

declare renderLayer_row.simps [simp del]

function renderLayer_rows ::
  "Env \<Rightarrow> Layer \<Rightarrow> int \<Rightarrow> int \<Rightarrow> int \<Rightarrow> nat \<Rightarrow> trace \<Rightarrow> Renderer
     \<Rightarrow> (error + unit) \<times> trace \<times> Renderer" where
  "renderLayer_rows env layer y ye xe i tr r =
     (if y < ye
      then (case renderLayer_row env layer y 0 xe i tr r of
              (Inl err, tr1, r1) \<Rightarrow> (Inl err, tr1, r1)
            | (Inr i1, tr1, r1) \<Rightarrow> renderLayer_rows env layer (y + 1) ye xe i1 tr1 r1)
      else (Inr (), tr, r))"
  by pat_completeness auto
termination
  by (relation "measure (\<lambda>(env, layer, y, ye, xe, i, tr, r). nat (ye - y))") auto

declare renderLayer_rows.simps [simp del]

definition priv_renderLayer ::
  "Env \<Rightarrow> Layer \<Rightarrow> trace \<Rightarrow> Renderer \<Rightarrow> (error + unit) \<times> trace \<times> Renderer" where
  "priv_renderLayer env layer tr r =
     (if RenderOrder (m r) = [] \<or> RenderOrder (m r) = ''right-down''
      then renderLayer_rows env layer 0 (Map.Height (m r)) (Map.Width (m r)) 0 tr r
      else (Inl ErrUnsupportedRenderOrder, tr, r))"

definition RenderLayer ::
  "Env \<Rightarrow> int \<Rightarrow> trace \<Rightarrow> Renderer \<Rightarrow> (error + unit) \<times> trace \<times> Renderer" where
  "RenderLayer env ident tr r =
     (if int (length (Map.Layers (m r))) \<le> ident then (Inl ErrOutOfBounds, tr, r)
      else if ident < 0 then (Inl Panic, tr, r)
      else priv_renderLayer env (Map.Layers (m r) ! nat ident) tr r)"

definition RenderGroupLayer ::
  "Env \<Rightarrow> int \<Rightarrow> int \<Rightarrow> trace \<Rightarrow> Renderer \<Rightarrow> (error + unit) \<times> trace \<times> Renderer" where
  "RenderGroupLayer env groupID layerID tr r =
     (if int (length (Groups (m r))) \<le> groupID then (Inl ErrOutOfBounds, tr, r)
      else if groupID < 0 then (Inl Panic, tr, r)
      else (let grp = Groups (m r) ! nat groupID in
            if int (length (Group.Layers grp)) \<le> layerID then (Inl ErrOutOfBounds, tr, r)
            else if layerID < 0 then (Inl Panic, tr, r)
            else priv_renderLayer env (Group.Layers grp ! nat layerID) tr r))"

text \<open>
  \<open>RenderVisibleLayers\<close> ranges over the indices of \<open>r.m.Layers\<close>; the map does not
  change while rendering.
\<close>

fun RenderVisibleLayers_from ::
  "Env \<Rightarrow> nat list \<Rightarrow> trace \<Rightarrow> Renderer \<Rightarrow> (error + unit) \<times> trace \<times> Renderer" where
  "RenderVisibleLayers_from env [] tr r = (Inr (), tr, r)"
| "RenderVisibleLayers_from env (i # rest) tr r =
     (if \<not> Layer.Visible (Map.Layers (m r) ! i)
      then RenderVisibleLayers_from env rest tr r
      else (case RenderLayer env (int i) tr r of
              (Inl err, tr1, r1) \<Rightarrow> (Inl err, tr1, r1)
            | (Inr u, tr1, r1) \<Rightarrow> RenderVisibleLayers_from env rest tr1 r1))"

definition RenderVisibleLayers ::
  "Env \<Rightarrow> trace \<Rightarrow> Renderer \<Rightarrow> (error + unit) \<times> trace \<times> Renderer" where
  "RenderVisibleLayers env tr r =
     RenderVisibleLayers_from env [0 ..< length (Map.Layers (m r))] tr r"

section \<open>Objects\<close>

text \<open>
  Modelled from the spec: \<open>utils.SortAnySlice\<close> of package \<open>internal/utils\<close>, which
  is not among the sources. The spec has the objects "stably sorted" by the comparison
  that \<open>_renderObjectGroup\<close> passes: an insertion sort in which an element passes
  only the elements that compare strictly before it, so that elements which the
  comparison does not order keep their places.
\<close>

fun insert_sorted :: "('a \<Rightarrow> 'a \<Rightarrow> bool) \<Rightarrow> 'a \<Rightarrow> 'a list \<Rightarrow> 'a list" where
  "insert_sorted lt x [] = [x]"
| "insert_sorted lt x (y # ys) =
     (if lt y x then y # insert_sorted lt x ys else x # y # ys)"

definition SortAnySlice :: "'a list \<Rightarrow> ('a \<Rightarrow> 'a \<Rightarrow> bool) \<Rightarrow> 'a list" where
  "SortAnySlice xs lt = foldr (insert_sorted lt) xs []"

text \<open>The comparison function literal of \<open>_renderObjectGroup\<close>.\<close>

definition object_less :: "Object \<Rightarrow> Object \<Rightarrow> bool" where
  "object_less a b =
     (if float_neq (Y a) (Y b) then float_less (Y a) (Y b) else float_less (X a) (X b))"

text \<open>
  Go's conversion \<open>int(v)\<close> of a float discards the fraction; where the result is
  not an \<open>int\<close>, the value is the implementation's.

  \<open>getTileImage\<close> is declared to return an \<open>*ebiten.Image\<close>, so the type assertion
  on the image at the draw call of \<open>renderOneObject\<close> is taken to hold.
\<close>

definition trunc_toward_zero :: "real \<Rightarrow> int" where
  "trunc_toward_zero v = (if 0 \<le> v then \<lfloor>v\<rfloor> else \<lceil>v\<rceil>)"

definition int_of_float64 :: "Env \<Rightarrow> float \<Rightarrow> int" where
  "int_of_float64 env v =
     (case v of
        Finite x \<Rightarrow>
          if - (2 ^ 63) \<le> trunc_toward_zero x \<and> trunc_toward_zero x < 2 ^ 63 then trunc_toward_zero x
          else unrepresentable_int env v
      | _ \<Rightarrow> unrepresentable_int env v)"

definition renderOneObject ::
  "Env \<Rightarrow> ObjectGroup \<Rightarrow> Object \<Rightarrow> trace \<Rightarrow> Renderer \<Rightarrow> (error + unit) \<times> trace \<times> Renderer" where
  "renderOneObject env layer obj tr r =
     (if \<not> Object.Visible obj then (Inr (), tr, r)
      else if GID obj = 0 then (Inr (), tr, r)
      else (case TileGIDToTile env (m r) (GID obj) of
              Inl err \<Rightarrow> (Inl err, tr, r)
            | Inr tile \<Rightarrow>
               (case getTileImage env tile tr r of
                  (Inl err, tr1, r1) \<Rightarrow> (Inl err, tr1, r1)
                | (Inr img, tr1, r1) \<Rightarrow>
                   (let geom = GeoM_zero;
                        srcSize = Bounds_Size env img;
                        dstSize = (int_of_float64 env (Object.Width obj),
                                   int_of_float64 env (Object.Height obj));
                        geom = (if srcSize \<noteq> dstSize
                                then Scale
                                       (Quot (Float64 (fst dstSize)) (Float64 (fst srcSize)))
                                       (Quot (Float64 (snd dstSize)) (Float64 (snd srcSize)))
                                       geom
                                else geom);
                        geom = (if float_neq (Rotation obj) (Finite 0)
                                then Rotate
                                       (Quot (Times (Val (Rotation obj)) Pi) (Val (Finite 180)))
                                       geom
                                else geom)
                    in (Inr (), tr1,
                        r1\<lparr>Result :=
                             DrawImage img geom (ObjectGroup.Opacity layer) (Result r1)\<rparr>)))))"

fun renderObjects ::
  "Env \<Rightarrow> ObjectGroup \<Rightarrow> Object list \<Rightarrow> trace \<Rightarrow> Renderer
     \<Rightarrow> (error + unit) \<times> trace \<times> Renderer" where
  "renderObjects env layer [] tr r = (Inr (), tr, r)"
| "renderObjects env layer (obj # objs) tr r =
     (case renderOneObject env layer obj tr r of
        (Inl err, tr1, r1) \<Rightarrow> (Inl err, tr1, r1)
      | (Inr u, tr1, r1) \<Rightarrow> renderObjects env layer objs tr1 r1)"

definition priv_renderObjectGroup ::
  "Env \<Rightarrow> ObjectGroup \<Rightarrow> trace \<Rightarrow> Renderer \<Rightarrow> (error + unit) \<times> trace \<times> Renderer" where
  "priv_renderObjectGroup env objectGroup tr r =
     (let objs = Objects objectGroup;
          objs = SortAnySlice objs object_less
      in renderObjects env objectGroup objs tr r)"

definition RenderObjectGroup ::
  "Env \<Rightarrow> int \<Rightarrow> trace \<Rightarrow> Renderer \<Rightarrow> (error + unit) \<times> trace \<times> Renderer" where
  "RenderObjectGroup env i tr r =
     (if int (length (Map.ObjectGroups (m r))) \<le> i then (Inl ErrOutOfBounds, tr, r)
      else if i < 0 then (Inl Panic, tr, r)
      else priv_renderObjectGroup env (Map.ObjectGroups (m r) ! nat i) tr r)"

definition RenderGroupObjectGroup ::
  "Env \<Rightarrow> int \<Rightarrow> int \<Rightarrow> trace \<Rightarrow> Renderer \<Rightarrow> (error + unit) \<times> trace \<times> Renderer" where
  "RenderGroupObjectGroup env groupID objectGroupID tr r =
     (if int (length (Groups (m r))) \<le> groupID then (Inl ErrOutOfBounds, tr, r)
      else if groupID < 0 then (Inl Panic, tr, r)
      else (let grp = Groups (m r) ! nat groupID in
            if int (length (Group.ObjectGroups grp)) \<le> objectGroupID
            then (Inl ErrOutOfBounds, tr, r)
            else if objectGroupID < 0 then (Inl Panic, tr, r)
            else priv_renderObjectGroup env (Group.ObjectGroups grp ! nat objectGroupID) tr r))"

fun RenderVisibleObjectGroups_from ::
  "Env \<Rightarrow> nat list \<Rightarrow> trace \<Rightarrow> Renderer \<Rightarrow> (error + unit) \<times> trace \<times> Renderer" where
  "RenderVisibleObjectGroups_from env [] tr r = (Inr (), tr, r)"
| "RenderVisibleObjectGroups_from env (i # rest) tr r =
     (if \<not> ObjectGroup.Visible (Map.ObjectGroups (m r) ! i)
      then RenderVisibleObjectGroups_from env rest tr r
      else (case RenderObjectGroup env (int i) tr r of
              (Inl err, tr1, r1) \<Rightarrow> (Inl err, tr1, r1)
            | (Inr u, tr1, r1) \<Rightarrow> RenderVisibleObjectGroups_from env rest tr1 r1))"

definition RenderVisibleObjectGroups ::
  "Env \<Rightarrow> trace \<Rightarrow> Renderer \<Rightarrow> (error + unit) \<times> trace \<times> Renderer" where
  "RenderVisibleObjectGroups env tr r =
     RenderVisibleObjectGroups_from env [0 ..< length (Map.ObjectGroups (m r))] tr r"

definition RenderVisibleLayersAndObjectGroups ::
  "Env \<Rightarrow> trace \<Rightarrow> Renderer \<Rightarrow> (error + unit) \<times> trace \<times> Renderer" where
  "RenderVisibleLayersAndObjectGroups env tr r =
     (case RenderVisibleLayers env tr r of
        (Inl err, tr1, r1) \<Rightarrow> (Inl err, tr1, r1)
      | (Inr u, tr1, r1) \<Rightarrow> RenderVisibleObjectGroups env tr1 r1)"

section \<open>Groups\<close>

fun renderGroup_layers ::
  "Env \<Rightarrow> Layer list \<Rightarrow> trace \<Rightarrow> Renderer \<Rightarrow> (error + unit) \<times> trace \<times> Renderer" where
  "renderGroup_layers env [] tr r = (Inr (), tr, r)"
| "renderGroup_layers env (layer # rest) tr r =
     (if \<not> Layer.Visible layer then renderGroup_layers env rest tr r
      else (case priv_renderLayer env layer tr r of
              (Inl err, tr1, r1) \<Rightarrow> (Inl err, tr1, r1)
            | (Inr u, tr1, r1) \<Rightarrow> renderGroup_layers env rest tr1 r1))"

fun renderGroup_objectGroups ::
  "Env \<Rightarrow> ObjectGroup list \<Rightarrow> trace \<Rightarrow> Renderer \<Rightarrow> (error + unit) \<times> trace \<times> Renderer" where
  "renderGroup_objectGroups env [] tr r = (Inr (), tr, r)"
| "renderGroup_objectGroups env (objectGroup # rest) tr r =
     (if \<not> ObjectGroup.Visible objectGroup then renderGroup_objectGroups env rest tr r
      else (case priv_renderObjectGroup env objectGroup tr r of
              (Inl err, tr1, r1) \<Rightarrow> (Inl err, tr1, r1)
            | (Inr u, tr1, r1) \<Rightarrow> renderGroup_objectGroups env rest tr1 r1))"

definition priv_renderGroup ::
  "Env \<Rightarrow> Group \<Rightarrow> trace \<Rightarrow> Renderer \<Rightarrow> (error + unit) \<times> trace \<times> Renderer" where
  "priv_renderGroup env grp tr r =
     (case renderGroup_layers env (Group.Layers grp) tr r of
        (Inl err, tr1, r1) \<Rightarrow> (Inl err, tr1, r1)
      | (Inr u, tr1, r1) \<Rightarrow> renderGroup_objectGroups env (Group.ObjectGroups grp) tr1 r1)"

definition RenderGroup ::
  "Env \<Rightarrow> int \<Rightarrow> trace \<Rightarrow> Renderer \<Rightarrow> (error + unit) \<times> trace \<times> Renderer" where
  "RenderGroup env groupID tr r =
     (if int (length (Groups (m r))) \<le> groupID then (Inl ErrOutOfBounds, tr, r)
      else if groupID < 0 then (Inl Panic, tr, r)
      else priv_renderGroup env (Groups (m r) ! nat groupID) tr r)"

fun RenderVisibleGroups_from ::
  "Env \<Rightarrow> Group list \<Rightarrow> trace \<Rightarrow> Renderer \<Rightarrow> (error + unit) \<times> trace \<times> Renderer" where
  "RenderVisibleGroups_from env [] tr r = (Inr (), tr, r)"
| "RenderVisibleGroups_from env (grp # rest) tr r =
     (if \<not> Group.Visible grp then RenderVisibleGroups_from env rest tr r
      else (case priv_renderGroup env grp tr r of
              (Inl err, tr1, r1) \<Rightarrow> (Inl err, tr1, r1)
            | (Inr u, tr1, r1) \<Rightarrow> RenderVisibleGroups_from env rest tr1 r1))"

definition RenderVisibleGroups ::
  "Env \<Rightarrow> trace \<Rightarrow> Renderer \<Rightarrow> (error + unit) \<times> trace \<times> Renderer" where
  "RenderVisibleGroups env tr r = RenderVisibleGroups_from env (Groups (m r)) tr r"

section \<open>The tileset cache\<close>

record TilesetCache =
  cache :: "string \<rightharpoonup> (uint32 \<rightharpoonup> Image)"
  cache_fs :: "FS option"

definition NewTilesetCache :: "FS option \<Rightarrow> TilesetCache" where
  "NewTilesetCache fsys = \<lparr>cache = Map.empty, cache_fs = fsys\<rparr>"

definition TilesetCache_open ::
  "Env \<Rightarrow> TilesetCache \<Rightarrow> string \<Rightarrow> trace \<Rightarrow> (error + bytes) \<times> trace" where
  "TilesetCache_open env t f tr =
     (case cache_fs t of
        None \<Rightarrow> (os_Open env (FromSlash f), tr @ [FromSlash f])
      | Some fsys \<Rightarrow> (fsys (ToSlash f), tr @ [ToSlash f]))"

text \<open>The loop of \<open>cacheTileset\<close>, which fills the map of one tileset.\<close>

function cacheTileset_loop ::
  "Env \<Rightarrow> Tileset \<Rightarrow> Image \<Rightarrow> uint32 \<Rightarrow> (uint32 \<rightharpoonup> Image) \<Rightarrow> (uint32 \<rightharpoonup> Image)" where
  "cacheTileset_loop env tileset eimg i c =
     (if i < word_of_int (TileCount tileset)
      then (let rect = GetTileRect env tileset i
            in cacheTileset_loop env tileset eimg (i + 1) (c(i \<mapsto> SubImage eimg rect)))
      else c)"
  by pat_completeness auto
termination
proof -
  have step: "unat n - unat (i + 1) < unat n - unat i" if lt: "i < n" for i n :: uint32
  proof -
    from lt have "i \<noteq> - 1"
      by (metis word_order.extremum_strict)
    then have "1 + i \<noteq> 0"
      by (metis add_eq_0_iff)
    then have "unat (i + 1) = Suc (unat i)"
      by (simp add: unatSuc add.commute)
    moreover from lt have "unat i < unat n"
      by (simp add: word_less_nat_alt)
    ultimately show ?thesis
      by simp
  qed
  show ?thesis
    by (relation "measure (\<lambda>(env, tileset, eimg, i, c).
                    unat (word_of_int (TileCount tileset) :: uint32) - unat i)")
       (simp_all add: step)
qed

declare cacheTileset_loop.simps [simp del]

definition cacheTileset ::
  "Env \<Rightarrow> Tileset \<Rightarrow> trace \<Rightarrow> TilesetCache \<Rightarrow> (error + unit) \<times> trace \<times> TilesetCache" where
  "cacheTileset env tileset tr t =
     (case Tileset.Image tileset of
        None \<Rightarrow> (Inl Panic, tr, t)
      | Some ref \<Rightarrow>
         (case TilesetCache_open env t (GetFileFullPath env tileset (Source ref)) tr of
            (Inl err, tr1) \<Rightarrow> (Inl err, tr1, t)
          | (Inr sf, tr1) \<Rightarrow>
             (case image_Decode env sf of
                Inl err \<Rightarrow> (Inl err, tr1, t)
              | Inr img \<Rightarrow>
                 (case NewImageFromImage env img of
                    Inl err \<Rightarrow> (Inl err, tr1, t)
                  | Inr eimg \<Rightarrow>
                     (let c = cacheTileset_loop env tileset eimg 0 Map.empty
                      in (Inr (), tr1, t\<lparr>cache := (cache t)(Name tileset \<mapsto> c)\<rparr>))))))"

text \<open>
  \<open>GetTileImage\<close> returns an image and an error; the image is \<open>None\<close> where Go
  returns the nil image, as the lookup of a key that a map does not hold does.
\<close>

definition GetTileImage ::
  "Env \<Rightarrow> LayerTile \<Rightarrow> trace \<Rightarrow> TilesetCache
     \<Rightarrow> (error + Image option) \<times> trace \<times> TilesetCache" where
  "GetTileImage env tile tr t =
     (case cache t (Name (Tileset tile)) of
        Some cached \<Rightarrow> (Inr (cached (ID tile)), tr, t)
      | None \<Rightarrow>
         (case cacheTileset env (Tileset tile) tr t of
            (Inl err, tr1, t1) \<Rightarrow> (Inl err, tr1, t1)
          | (Inr u, tr1, t1) \<Rightarrow>
             (case cache t1 (Name (Tileset tile)) of
                Some cached \<Rightarrow> (Inr (cached (ID tile)), tr1, t1)
              | None \<Rightarrow> (Inr None, tr1, t1))))"

section \<open>The orientation of a tile, as the specification words it\<close>

text \<open>
  The specification lists the steps of the orientation transform in their order, each
  with the flag that enables it: the diagonal flip (a horizontal flip after a rotation
  by 270 degrees), the horizontal flip, the vertical flip. \<open>orient_tile\<close> runs the
  list from its first step to its last.
\<close>

definition orient_steps :: "LayerTile \<Rightarrow> (bool \<times> (Image \<Rightarrow> Image)) list" where
  "orient_steps tile =
     [(DiagonalFlip tile, \<lambda>im. FlipH (Rotate270 im)),
      (HorizontalFlip tile, FlipH),
      (VerticalFlip tile, FlipV)]"

definition orient_tile :: "LayerTile \<Rightarrow> Image \<Rightarrow> Image" where
  "orient_tile tile img =
     foldl (\<lambda>im (flag, f). if flag then f im else im) img (orient_steps tile)"

section \<open>The order of floats that are not NaN\<close>

text \<open>
  The floats other than NaN are linearly ordered by Go's \<open><\<close>: minus infinity, the
  finite values in the order of the reals, plus infinity. \<open>float_rank\<close> maps a float
  to its place in this order and \<open>float_unrank\<close> maps the place back; \<open>object_key\<close> is
  the place of an object, by its row \<open>Y\<close> first and its column \<open>X\<close> second.
\<close>

fun float_rank :: "float \<Rightarrow> nat \<times> real" where
  "float_rank NegInf = (0, 0)"
| "float_rank (Finite x) = (1, x)"
| "float_rank PosInf = (2, 0)"
| "float_rank NaN = (3, 0)"

definition float_unrank :: "nat \<times> real \<Rightarrow> float" where
  "float_unrank p =
     (if fst p = 0 then NegInf else if fst p = 1 then Finite (snd p)
      else if fst p = 2 then PosInf else NaN)"

definition object_key :: "Object \<Rightarrow> (nat \<times> real) \<times> (nat \<times> real)" where
  "object_key obj = (float_rank (Y obj), float_rank (X obj))"

definition no_NaN :: "Object \<Rightarrow> bool" where
  "no_NaN obj = (Y obj \<noteq> NaN \<and> X obj \<noteq> NaN)"

section \<open>An image that cannot be loaded\<close>

text \<open>
  The source image of a tileset cannot be opened or decoded, with the error \<open>err\<close>:
  either opening the file gives \<open>err\<close>, or the file opens and decoding its content
  gives \<open>err\<close>.
\<close>

definition cannot_load :: "Env \<Rightarrow> error + bytes \<Rightarrow> error \<Rightarrow> bool" where
  "cannot_load env opened err =
     (case opened of Inl e \<Rightarrow> e = err | Inr sf \<Rightarrow> image_Decode env sf = Inl err)"

section \<open>A small map\<close>

text \<open>
  The map of the closed instances below: one cell of 16 by 16 pixels, one layer, one
  object group, and one group that holds a layer and an object group.
\<close>

definition example_layer :: Layer where
  "example_layer = \<lparr>Layer.Visible = True, Opacity = Finite 1, Tiles = []\<rparr>"

definition example_objectGroup :: ObjectGroup where
  "example_objectGroup = \<lparr>ObjectGroup.Visible = True, Opacity = Finite 1, Objects = []\<rparr>"

definition example_group :: Group where
  "example_group = \<lparr>Group.Visible = True, Layers = [example_layer],
                     ObjectGroups = [example_objectGroup]\<rparr>"

definition example_map :: "string \<Rightarrow> Map" where
  "example_map orientation =
     \<lparr>Orientation = orientation, RenderOrder = ''right-down'',
      Width = 1, Height = 1, TileWidth = 16, TileHeight = 16,
      Layers = [example_layer], ObjectGroups = [example_objectGroup],
      Groups = [example_group]\<rparr>"

definition example_renderer :: Renderer where
  "example_renderer =
     \<lparr>m = example_map ''orthogonal'',
      Result = \<lparr>canvas_width = 16, canvas_height = 16, draws = []\<rparr>,
      tileCache = Map.empty,
      engine = Init (example_map ''orthogonal''), fs = None\<rparr>"

definition example_tileset :: Tileset where
  "example_tileset =
     \<lparr>Name = ''terrain'', FirstGID = 1, TileCount = 3,
      Image = Some \<lparr>Source = ''terrain.png''\<rparr>\<rparr>"

definition example_tile :: LayerTile where
  "example_tile =
     \<lparr>ID = 1, Tileset = example_tileset, HorizontalFlip = False, VerticalFlip = False,
      DiagonalFlip = False, Nil = False\<rparr>"

text \<open>
  An object that shows tile 1 of the example tileset, twice the tile's size and
  turned by 90 degrees.
\<close>

definition example_object :: Object where
  "example_object =
     \<lparr>GID = 2, X = Finite 5, Y = Finite 7, Width = Finite 32, Height = Finite 32,
      Rotation = Finite 90, Visible = True\<rparr>"

text \<open>The example object, placed at row \<open>y\<close> and column \<open>x\<close>.\<close>

definition object_at :: "real \<Rightarrow> real \<Rightarrow> Object" where
  "object_at y x = example_object\<lparr>X := Finite x, Y := Finite y\<rparr>"

text \<open>
  Two surroundings of the renderer: in \<open>example_env\<close> the file \<open>terrain.png\<close> exists
  and decodes; in \<open>broken_env\<close> no file can be opened.
\<close>

definition example_env :: Env where
  "example_env =
     \<lparr>GetFileFullPath = (\<lambda>ts name. name),
      GetTileRect = (\<lambda>ts i. \<lparr>MinX = 16 * uint i, MinY = 0, MaxX = 16 * uint i + 16, MaxY = 16\<rparr>),
      GetTilesetTile = (\<lambda>ts i. Inl (Foreign ''no tile with this id'')),
      TileGIDToTile = (\<lambda>mp gid. Inr (example_tile\<lparr>ID := gid - 1\<rparr>)),
      os_Open = (\<lambda>f. if f = ''terrain.png'' then Inr ''PNG'' else Inl (Foreign ''no such file'')),
      image_Decode = (\<lambda>b. Inr (Raster b)),
      Bounds_Size = (\<lambda>im. (16, 16)),
      unrepresentable_int = (\<lambda>v. - (2 ^ 63))\<rparr>"


definition broken_env :: Env where
  "broken_env = example_env\<lparr>os_Open := (\<lambda>f. Inl (Foreign ''no such file''))\<rparr>"

section \<open>The cell transform\<close>

lemma wrap64_id: "- (2 ^ 63) \<le> n \<Longrightarrow> n < 2 ^ 63 \<Longrightarrow> wrap64 n = n"
  unfolding wrap64_def by (simp add: sint_sbintrunc' signed_take_bit_int_eq_self)

text \<open>
  C1. For every cell \<open>(x, y)\<close> the transform that \<open>GetTilePosition\<close> returns is made of
  two steps: a translation to \<open>(x * TileWidth, y * TileHeight)\<close>, then a scale by
  \<open>((x+1) * TileWidth, (y+1) * TileHeight)\<close>. The products are those of Go's \<open>int\<close>,
  converted to \<open>float64\<close>; the scale step is part of the result for every cell.
\<close>

theorem GetTilePosition_translate_then_scale:
  "GetTilePosition e x y =
     [TranslateStep (Float64 (wrap64 (x * TileWidth (engine_m e))))
                    (Float64 (wrap64 (y * TileHeight (engine_m e)))),
      ScaleStep (Float64 (wrap64 (wrap64 (x + 1) * TileWidth (engine_m e))))
                (Float64 (wrap64 (wrap64 (y + 1) * TileHeight (engine_m e))))]"
  by (simp add: GetTilePosition_def GeoM_zero_def Translate_def Scale_def)

text \<open>Where no product leaves the range of \<open>int\<close>, the factors are the plain products.\<close>

lemma GetTilePosition_in_range:
  assumes "0 \<le> x" "0 \<le> y" "0 \<le> TileWidth (engine_m e)" "0 \<le> TileHeight (engine_m e)"
    and "(x + 1) * TileWidth (engine_m e) < 2 ^ 63" "(y + 1) * TileHeight (engine_m e) < 2 ^ 63"
    and "x + 1 < 2 ^ 63" "y + 1 < 2 ^ 63"
  shows "GetTilePosition e x y =
     [TranslateStep (Float64 (x * TileWidth (engine_m e))) (Float64 (y * TileHeight (engine_m e))),
      ScaleStep (Float64 ((x + 1) * TileWidth (engine_m e)))
                (Float64 ((y + 1) * TileHeight (engine_m e)))]"
proof -
  have x_le: "x * TileWidth (engine_m e) \<le> (x + 1) * TileWidth (engine_m e)"
    using assms(3) by (simp add: mult_right_mono)
  have y_le: "y * TileHeight (engine_m e) \<le> (y + 1) * TileHeight (engine_m e)"
    using assms(4) by (simp add: mult_right_mono)
  have "wrap64 (x + 1) = x + 1" "wrap64 (y + 1) = y + 1"
    using assms by (simp_all add: wrap64_id)
  moreover have "wrap64 (x * TileWidth (engine_m e)) = x * TileWidth (engine_m e)"
    using assms x_le by (intro wrap64_id) (auto intro: order_trans [of _ 0])
  moreover have "wrap64 (y * TileHeight (engine_m e)) = y * TileHeight (engine_m e)"
    using assms y_le by (intro wrap64_id) (auto intro: order_trans [of _ 0])
  moreover have "wrap64 ((x + 1) * TileWidth (engine_m e)) = (x + 1) * TileWidth (engine_m e)"
    using assms by (intro wrap64_id) (auto intro: order_trans [of _ 0])
  moreover have "wrap64 ((y + 1) * TileHeight (engine_m e)) = (y + 1) * TileHeight (engine_m e)"
    using assms by (intro wrap64_id) (auto intro: order_trans [of _ 0])
  ultimately show ?thesis
    by (simp add: GetTilePosition_def GeoM_zero_def Translate_def Scale_def)
qed

section \<open>The orientation transform\<close>

text \<open>
  C3. For every tile and every image, \<open>RotateTileImage\<close> applies the steps in the order
  diagonal flip (a horizontal flip of the image rotated by 270 degrees), horizontal
  flip, vertical flip, each one only when the tile has its flag.
\<close>

theorem RotateTileImage_fixed_order:
  "RotateTileImage e tile img = orient_tile tile img"
  by (simp add: RotateTileImage_def orient_tile_def orient_steps_def)

section \<open>Construction\<close>




text \<open>
  The renderer that the constructor returns is the one that \<open>Clear\<close> leaves, and the
  constructor panics where \<open>Clear\<close> does.
\<close>

lemma NewRenderer_Clear:
  "NewRendererWithFileSystem mp fsys tr = (Inr r, tr') \<Longrightarrow> Clear r = Inr r"
  by (auto simp: NewRendererWithFileSystem_def Clear_def Let_def Init_def
           split: if_splits prod.splits sum.splits)

section \<open>Indexed accessors\<close>

text \<open>
  C6. Each of \<open>RenderLayer\<close>, \<open>RenderGroup\<close>, \<open>RenderGroupLayer\<close>,
  \<open>RenderObjectGroup\<close> and \<open>RenderGroupObjectGroup\<close>, called with an index that is
  at least the length of the sequence it indexes, returns \<open>ErrOutOfBounds\<close> and leaves
  the renderer, so also its canvas, as it was; no file is opened. For the accessors
  with two indices the second index is checked against the sequence of the group that
  the first index names.
\<close>

theorem indexed_accessors_out_of_bounds:
  "(int (length (Map.Layers (m r))) \<le> i \<longrightarrow>
      RenderLayer env i tr r = (Inl ErrOutOfBounds, tr, r)) \<and>
   (int (length (Groups (m r))) \<le> g \<longrightarrow>
      RenderGroup env g tr r = (Inl ErrOutOfBounds, tr, r) \<and>
      RenderGroupLayer env g j tr r = (Inl ErrOutOfBounds, tr, r) \<and>
      RenderGroupObjectGroup env g j tr r = (Inl ErrOutOfBounds, tr, r)) \<and>
   (0 \<le> g \<and> g < int (length (Groups (m r))) \<and>
    int (length (Group.Layers (Groups (m r) ! nat g))) \<le> j \<longrightarrow>
      RenderGroupLayer env g j tr r = (Inl ErrOutOfBounds, tr, r)) \<and>
   (int (length (Map.ObjectGroups (m r))) \<le> i \<longrightarrow>
      RenderObjectGroup env i tr r = (Inl ErrOutOfBounds, tr, r)) \<and>
   (0 \<le> g \<and> g < int (length (Groups (m r))) \<and>
    int (length (Group.ObjectGroups (Groups (m r) ! nat g))) \<le> j \<longrightarrow>
      RenderGroupObjectGroup env g j tr r = (Inl ErrOutOfBounds, tr, r))"
  by (simp add: RenderLayer_def RenderGroup_def RenderGroupLayer_def
        RenderObjectGroup_def RenderGroupObjectGroup_def Let_def)

theorem indexed_accessors_out_of_bounds_witness:
  "int (length (Map.Layers (m example_renderer))) \<le> 1 \<and>
   RenderLayer example_env 1 [] example_renderer = (Inl ErrOutOfBounds, [], example_renderer) \<and>
   int (length (Groups (m example_renderer))) \<le> 1 \<and>
   RenderGroup example_env 1 [] example_renderer = (Inl ErrOutOfBounds, [], example_renderer) \<and>
   RenderGroupLayer example_env 1 0 [] example_renderer
     = (Inl ErrOutOfBounds, [], example_renderer) \<and>
   RenderGroupObjectGroup example_env 1 0 [] example_renderer
     = (Inl ErrOutOfBounds, [], example_renderer) \<and>
   int (length (Map.ObjectGroups (m example_renderer))) \<le> 1 \<and>
   RenderObjectGroup example_env 1 [] example_renderer
     = (Inl ErrOutOfBounds, [], example_renderer) \<and>
   (0::int) < int (length (Groups (m example_renderer))) \<and>
   int (length (Group.Layers (Groups (m example_renderer) ! nat 0))) \<le> 1 \<and>
   int (length (Group.ObjectGroups (Groups (m example_renderer) ! nat 0))) \<le> 1 \<and>
   RenderGroupLayer example_env 0 1 [] example_renderer
     = (Inl ErrOutOfBounds, [], example_renderer) \<and>
   RenderGroupObjectGroup example_env 0 1 [] example_renderer
     = (Inl ErrOutOfBounds, [], example_renderer)"
  using indexed_accessors_out_of_bounds [of example_renderer 1 example_env "[]" 1 0]
        indexed_accessors_out_of_bounds [of example_renderer 1 example_env "[]" 0 1]
  by (simp add: example_renderer_def example_map_def example_group_def)

section \<open>The tile cache of the renderer\<close>









section \<open>Images that cannot be loaded\<close>

lemma Renderer_open_trace:
  "Renderer_open env r f tr = (fst (Renderer_open env r f []), tr @ [f])"
  by (simp add: Renderer_open_def FromSlash_def ToSlash_def split: option.splits)

lemma TilesetCache_open_trace:
  "TilesetCache_open env t f tr = (fst (TilesetCache_open env t f []), tr @ [f])"
  by (simp add: TilesetCache_open_def FromSlash_def ToSlash_def split: option.splits)

lemma getTileImageFromTileset_cannot_load:
  assumes "Tileset.Image (Tileset tile) = Some ref"
    and "cannot_load env
           (fst (Renderer_open env r (GetFileFullPath env (Tileset tile) (Source ref)) [])) err"
  shows "getTileImageFromTileset env tile tr r =
           (Inl err, tr @ [GetFileFullPath env (Tileset tile) (Source ref)], r)"
proof -
  let ?path = "GetFileFullPath env (Tileset tile) (Source ref)"
  have o: "Renderer_open env r ?path tr = (fst (Renderer_open env r ?path []), tr @ [?path])"
    by (rule Renderer_open_trace)
  show ?thesis
  proof (cases "fst (Renderer_open env r ?path [])")
    case (Inl e)
    with assms show ?thesis
      by (simp add: getTileImageFromTileset_def o cannot_load_def)
  next
    case (Inr sf)
    with assms show ?thesis
      by (simp add: getTileImageFromTileset_def o cannot_load_def)
  qed
qed

lemma cacheTileset_cannot_load:
  assumes "Tileset.Image tileset = Some ref"
    and "cannot_load env
           (fst (TilesetCache_open env t (GetFileFullPath env tileset (Source ref)) [])) err"
  shows "cacheTileset env tileset tr t =
           (Inl err, tr @ [GetFileFullPath env tileset (Source ref)], t)"
proof -
  let ?path = "GetFileFullPath env tileset (Source ref)"
  have o: "TilesetCache_open env t ?path tr = (fst (TilesetCache_open env t ?path []), tr @ [?path])"
    by (rule TilesetCache_open_trace)
  show ?thesis
  proof (cases "fst (TilesetCache_open env t ?path [])")
    case (Inl e)
    with assms show ?thesis
      by (simp add: cacheTileset_def o cannot_load_def)
  next
    case (Inr sf)
    with assms show ?thesis
      by (simp add: cacheTileset_def o cannot_load_def)
  qed
qed

text \<open>
  C8. Let the source image of a tile's tileset fail to open or to decode, with the
  error \<open>err\<close>, and let the cache hold nothing for the tile. Then the renderer's
  \<open>getTileImage\<close> and the tileset cache's \<open>GetTileImage\<close> both return \<open>err\<close> as
  it is, after one attempt to open the file, and leave the renderer and the tileset
  cache as they were: no entry is added. The same call made again on what the first
  call left opens the file a second time and fails in the same way.
\<close>

theorem failed_load_is_not_cached:
  assumes shared: "Tileset.Image (Tileset tile) = Some ref"
    and path: "path = GetFileFullPath env (Tileset tile) (Source ref)"
    and miss: "tileCache r (FirstGID (Tileset tile) + ID tile) = None"
    and fails: "cannot_load env (fst (Renderer_open env r path [])) err"
    and miss_t: "cache t (Name (Tileset tile)) = None"
    and fails_t: "cannot_load env (fst (TilesetCache_open env t path [])) err"
  shows "getTileImage env tile tr r = (Inl err, tr @ [path], r) \<and>
         getTileImage env tile (tr @ [path]) r = (Inl err, tr @ [path, path], r) \<and>
         GetTileImage env tile tr t = (Inl err, tr @ [path], t) \<and>
         GetTileImage env tile (tr @ [path]) t = (Inl err, tr @ [path, path], t)"
proof -
  have r: "getTileImage env tile tr0 r = (Inl err, tr0 @ [path], r)" for tr0
    using miss shared getTileImageFromTileset_cannot_load [OF shared, of env r err tr0] fails
    by (simp add: getTileImage_def path)
  have t: "GetTileImage env tile tr0 t = (Inl err, tr0 @ [path], t)" for tr0
    using miss_t cacheTileset_cannot_load [OF shared, of env t err tr0] fails_t
    by (simp add: GetTileImage_def path)
  show ?thesis
    using r [of tr] r [of "tr @ [path]"] t [of tr] t [of "tr @ [path]"] by simp
qed

theorem failed_load_is_not_cached_witness:
  "Tileset.Image (Tileset example_tile) = Some \<lparr>Source = ''terrain.png''\<rparr> \<and>
   ''terrain.png'' = GetFileFullPath broken_env (Tileset example_tile) ''terrain.png'' \<and>
   tileCache example_renderer (FirstGID (Tileset example_tile) + ID example_tile) = None \<and>
   cannot_load broken_env (fst (Renderer_open broken_env example_renderer ''terrain.png'' []))
     (Foreign ''no such file'') \<and>
   cache (NewTilesetCache None) (Name (Tileset example_tile)) = None \<and>
   cannot_load broken_env
     (fst (TilesetCache_open broken_env (NewTilesetCache None) ''terrain.png'' []))
     (Foreign ''no such file'') \<and>
   getTileImage broken_env example_tile [] example_renderer
     = (Inl (Foreign ''no such file''), [''terrain.png''], example_renderer) \<and>
   GetTileImage broken_env example_tile [] (NewTilesetCache None)
     = (Inl (Foreign ''no such file''), [''terrain.png''], NewTilesetCache None)"
proof -
  have shared: "Tileset.Image (Tileset example_tile) = Some \<lparr>Source = ''terrain.png''\<rparr>"
    by (simp add: example_tile_def example_tileset_def)
  have path: "''terrain.png'' =
      GetFileFullPath broken_env (Tileset example_tile) (Source \<lparr>Source = ''terrain.png''\<rparr>)"
    by (simp add: broken_env_def example_env_def)
  have miss: "tileCache example_renderer (FirstGID (Tileset example_tile) + ID example_tile) = None"
    by (simp add: example_renderer_def)
  have fails: "cannot_load broken_env
      (fst (Renderer_open broken_env example_renderer ''terrain.png'' [])) (Foreign ''no such file'')"
    by (simp add: cannot_load_def Renderer_open_def example_renderer_def broken_env_def)
  have miss_t: "cache (NewTilesetCache None) (Name (Tileset example_tile)) = None"
    by (simp add: NewTilesetCache_def)
  have fails_t: "cannot_load broken_env
      (fst (TilesetCache_open broken_env (NewTilesetCache None) ''terrain.png'' []))
      (Foreign ''no such file'')"
    by (simp add: cannot_load_def TilesetCache_open_def NewTilesetCache_def broken_env_def)
  from failed_load_is_not_cached [OF shared path miss fails miss_t fails_t, of "[]"]
    shared path miss fails miss_t fails_t
  show ?thesis
    by simp
qed

section \<open>The tileset cache\<close>





section \<open>Objects that are skipped\<close>

lemma renderOneObject_skip:
  "\<not> Object.Visible obj \<or> GID obj = 0 \<Longrightarrow> renderOneObject env layer obj tr r = (Inr (), tr, r)"
  by (auto simp: renderOneObject_def)

lemma renderObjects_filter:
  "renderObjects env layer objs tr r =
     renderObjects env layer (filter (\<lambda>obj. Object.Visible obj \<and> GID obj \<noteq> 0) objs) tr r"
proof (induction objs arbitrary: tr r)
  case Nil
  show ?case by simp
next
  case (Cons obj objs)
  show ?case
  proof (cases "Object.Visible obj \<and> GID obj \<noteq> 0")
    case True
    then show ?thesis
      by (simp add: Cons.IH split: prod.splits sum.splits)
  next
    case False
    then have "renderOneObject env layer obj tr r = (Inr (), tr, r)"
      by (intro renderOneObject_skip) auto
    with False show ?thesis
      using Cons.IH [of tr r] by auto
  qed
qed

text \<open>
  C7. An object that is not visible or whose \<open>GID\<close> is 0 is skipped by
  \<open>renderOneObject\<close>: the call returns no error, draws nothing, opens no file and
  leaves the renderer as it was. Rendering a sequence of objects, and so rendering an
  object group, is therefore the same as rendering the sequence without these objects.
\<close>

theorem skipped_objects:
  "(\<not> Object.Visible obj \<or> GID obj = 0 \<longrightarrow>
      renderOneObject env layer obj tr r = (Inr (), tr, r)) \<and>
   renderObjects env layer objs tr r =
     renderObjects env layer (filter (\<lambda>obj. Object.Visible obj \<and> GID obj \<noteq> 0) objs) tr r \<and>
   priv_renderObjectGroup env objectGroup tr r =
     renderObjects env objectGroup
       (filter (\<lambda>obj. Object.Visible obj \<and> GID obj \<noteq> 0)
          (SortAnySlice (Objects objectGroup) object_less)) tr r"
  using renderOneObject_skip [of obj env layer tr r]
        renderObjects_filter [of env layer objs tr r]
        renderObjects_filter [of env objectGroup "SortAnySlice (Objects objectGroup) object_less" tr r]
  by (simp add: priv_renderObjectGroup_def Let_def)

theorem skipped_objects_witness:
  "\<not> Object.Visible (example_object\<lparr>Object.Visible := False\<rparr>) \<and>
   GID (example_object\<lparr>GID := 0\<rparr>) = 0 \<and>
   renderOneObject example_env example_objectGroup
       (example_object\<lparr>Object.Visible := False\<rparr>) [] example_renderer
     = (Inr (), [], example_renderer) \<and>
   renderOneObject example_env example_objectGroup
       (example_object\<lparr>GID := 0\<rparr>) [] example_renderer
     = (Inr (), [], example_renderer) \<and>
   priv_renderObjectGroup example_env
       (example_objectGroup\<lparr>Objects :=
          [example_object\<lparr>Object.Visible := False\<rparr>, example_object\<lparr>GID := 0\<rparr>]\<rparr>)
       [] example_renderer
     = (Inr (), [], example_renderer)"
  using skipped_objects [of "example_object\<lparr>Object.Visible := False\<rparr>" example_env
          example_objectGroup "[]" example_renderer "[]"
          "example_objectGroup\<lparr>Objects :=
             [example_object\<lparr>Object.Visible := False\<rparr>, example_object\<lparr>GID := 0\<rparr>]\<rparr>"]
        skipped_objects [of "example_object\<lparr>GID := 0\<rparr>" example_env
          example_objectGroup "[]" example_renderer "[]" example_objectGroup]
  by (simp add: example_object_def SortAnySlice_def object_less_def float_neq_def)

section \<open>The transform of an object\<close>

lemma getTileImageFromTile_Result:
  "getTileImageFromTile env tile tr r = (res, tr', r') \<Longrightarrow> Result r' = Result r"
  unfolding getTileImageFromTile_def
  by (auto simp: Let_def split: sum.splits option.splits prod.splits)

lemma getTileImageFromTileset_Result:
  "getTileImageFromTileset env tile tr r = (res, tr', r') \<Longrightarrow> Result r' = Result r"
  unfolding getTileImageFromTileset_def
  by (auto simp: Let_def split: sum.splits option.splits prod.splits)

lemma getTileImage_Result:
  "getTileImage env tile tr r = (res, tr', r') \<Longrightarrow> Result r' = Result r"
  unfolding getTileImage_def
  by (auto simp: Let_def getTileImageFromTile_Result getTileImageFromTileset_Result
           split: sum.splits option.splits if_splits)


text \<open>
  C10. \<open>renderOneObject\<close> does not read the position of the object: the call gives the
  same result for every \<open>X\<close> and \<open>Y\<close>. Whatever the call returns, it has drawn either
  nothing or one image, with the alpha of the object group and with a transform that
  is made of at most a scale step, from the size of the image to the width and height
  of the object, followed by at most a rotation step, by the object's rotation in
  radians. The transform has no translation step.
\<close>

theorem renderOneObject_no_translation:
  "renderOneObject env layer (obj\<lparr>X := x, Y := y\<rparr>) tr r = renderOneObject env layer obj tr r \<and>
   (renderOneObject env layer obj tr r = (res, tr', r') \<longrightarrow>
      draws (Result r') = draws (Result r) \<or>
      (\<exists>img sc ro.
         draws (Result r') = draws (Result r) @ [(img, sc @ ro, ObjectGroup.Opacity layer)] \<and>
         (sc = [] \<or>
          sc = [ScaleStep
                  (Quot (Float64 (int_of_float64 env (Object.Width obj)))
                        (Float64 (fst (Bounds_Size env img))))
                  (Quot (Float64 (int_of_float64 env (Object.Height obj)))
                        (Float64 (snd (Bounds_Size env img))))]) \<and>
         (ro = [] \<or>
          ro = [RotateStep (Quot (Times (Val (Rotation obj)) Pi) (Val (Finite 180)))])))"
proof (intro conjI impI)
  show "renderOneObject env layer (obj\<lparr>X := x, Y := y\<rparr>) tr r = renderOneObject env layer obj tr r"
    by (simp add: renderOneObject_def Let_def split: sum.splits prod.splits)
next
  assume run: "renderOneObject env layer obj tr r = (res, tr', r')"
  let ?goal = "draws (Result r') = draws (Result r) \<or>
      (\<exists>img sc ro.
         draws (Result r') = draws (Result r) @ [(img, sc @ ro, ObjectGroup.Opacity layer)] \<and>
         (sc = [] \<or>
          sc = [ScaleStep
                  (Quot (Float64 (int_of_float64 env (Object.Width obj)))
                        (Float64 (fst (Bounds_Size env img))))
                  (Quot (Float64 (int_of_float64 env (Object.Height obj)))
                        (Float64 (snd (Bounds_Size env img))))]) \<and>
         (ro = [] \<or>
          ro = [RotateStep (Quot (Times (Val (Rotation obj)) Pi) (Val (Finite 180)))]))"
  show ?goal
  proof (cases "\<not> Object.Visible obj \<or> GID obj = 0")
    case True
    then have "renderOneObject env layer obj tr r = (Inr (), tr, r)"
      by (rule renderOneObject_skip)
    with run have "r' = r"
      by simp
    then show ?thesis
      by simp
  next
    case False
    then have shown: "Object.Visible obj" "GID obj \<noteq> 0"
      by simp_all
    show ?thesis
    proof (cases "TileGIDToTile env (m r) (GID obj)")
      case (Inl err)
      with shown have "renderOneObject env layer obj tr r = (Inl err, tr, r)"
        by (simp add: renderOneObject_def)
      with run have "r' = r"
        by simp
      then show ?thesis
        by simp
    next
      case (Inr tile)
      obtain res1 tr1 r1 where g: "getTileImage env tile tr r = (res1, tr1, r1)"
        by (metis surj_pair)
      then have canvas: "Result r1 = Result r"
        by (rule getTileImage_Result)
      show ?thesis
      proof (cases res1)
        case (Inl err)
        with shown Inr g have "renderOneObject env layer obj tr r = (Inl err, tr1, r1)"
          by (simp add: renderOneObject_def)
        with run have "r' = r1"
          by simp
        with canvas show ?thesis
          by simp
      next
        case img: (Inr img)
        let ?sc = "if Bounds_Size env img
                       \<noteq> (int_of_float64 env (Object.Width obj), int_of_float64 env (Object.Height obj))
                   then [ScaleStep
                           (Quot (Float64 (int_of_float64 env (Object.Width obj)))
                                 (Float64 (fst (Bounds_Size env img))))
                           (Quot (Float64 (int_of_float64 env (Object.Height obj)))
                                 (Float64 (snd (Bounds_Size env img))))]
                   else []"
        let ?ro = "if float_neq (Rotation obj) (Finite 0)
                   then [RotateStep (Quot (Times (Val (Rotation obj)) Pi) (Val (Finite 180)))]
                   else []"
        from shown Inr g img
        have "renderOneObject env layer obj tr r =
            (Inr (), tr1, r1\<lparr>Result :=
               DrawImage img (?sc @ ?ro) (ObjectGroup.Opacity layer) (Result r1)\<rparr>)"
          by (simp add: renderOneObject_def Let_def GeoM_zero_def Scale_def Rotate_def)
        with run have "r' = r1\<lparr>Result :=
               DrawImage img (?sc @ ?ro) (ObjectGroup.Opacity layer) (Result r1)\<rparr>"
          by simp
        with canvas
        have "draws (Result r') = draws (Result r) @ [(img, ?sc @ ?ro, ObjectGroup.Opacity layer)]"
          by (simp add: DrawImage_def)
        moreover have "?sc = [] \<or>
            ?sc = [ScaleStep
                  (Quot (Float64 (int_of_float64 env (Object.Width obj)))
                        (Float64 (fst (Bounds_Size env img))))
                  (Quot (Float64 (int_of_float64 env (Object.Height obj)))
                        (Float64 (snd (Bounds_Size env img))))]"
          by simp
        moreover have "?ro = [] \<or>
            ?ro = [RotateStep (Quot (Times (Val (Rotation obj)) Pi) (Val (Finite 180)))]"
          by simp
        ultimately show ?thesis
          by blast
      qed
    qed
  qed
qed

theorem renderOneObject_no_translation_witness:
  "renderOneObject example_env example_objectGroup
       (example_object\<lparr>X := Finite 100, Y := Finite 200\<rparr>) [] example_renderer
     = renderOneObject example_env example_objectGroup example_object [] example_renderer \<and>
   (\<exists>res tr' r'.
      renderOneObject example_env example_objectGroup example_object [] example_renderer
        = (res, tr', r') \<and>
      draws (Result r') =
        draws (Result example_renderer) @
        [(EbitenImage (SubImage (EbitenImage (Raster ''PNG''))
                         \<lparr>MinX = 16, MinY = 0, MaxX = 32, MaxY = 16\<rparr>),
          [ScaleStep (Quot (Float64 32) (Float64 16)) (Quot (Float64 32) (Float64 16))] @
          [RotateStep (Quot (Times (Val (Finite 90)) Pi) (Val (Finite 180)))],
          Finite 1)])"
proof -
  obtain res tr' r' where
    run: "renderOneObject example_env example_objectGroup example_object [] example_renderer
            = (res, tr', r')"
    by (metis surj_pair)
  have "draws (Result (snd (snd (renderOneObject example_env example_objectGroup example_object []
            example_renderer)))) =
        [(EbitenImage (SubImage (EbitenImage (Raster ''PNG''))
                         \<lparr>MinX = 16, MinY = 0, MaxX = 32, MaxY = 16\<rparr>),
          [ScaleStep (Quot (Float64 32) (Float64 16)) (Quot (Float64 32) (Float64 16)),
           RotateStep (Quot (Times (Val (Finite 90)) Pi) (Val (Finite 180)))],
          Finite 1)]"
    by (simp add: renderOneObject_def example_object_def example_env_def example_renderer_def
          example_objectGroup_def example_map_def example_tile_def example_tileset_def
          getTileImage_def getTileImageFromTileset_def Renderer_open_def FromSlash_def
          NewImageFromImage_def precache.simps Let_def RotateTileImage_def int_of_float64_def
          trunc_toward_zero_def DrawImage_def GeoM_zero_def Scale_def Rotate_def float_neq_def Init_def)
  with run have drawn: "draws (Result r') =
        draws (Result example_renderer) @
        [(EbitenImage (SubImage (EbitenImage (Raster ''PNG''))
                         \<lparr>MinX = 16, MinY = 0, MaxX = 32, MaxY = 16\<rparr>),
          [ScaleStep (Quot (Float64 32) (Float64 16)) (Quot (Float64 32) (Float64 16))] @
          [RotateStep (Quot (Times (Val (Finite 90)) Pi) (Val (Finite 180)))],
          Finite 1)]"
    by (simp add: example_renderer_def)
  from renderOneObject_no_translation [where env = example_env and layer = example_objectGroup
         and obj = example_object and x = "Finite 100" and y = "Finite 200" and tr = "[]"
         and r = example_renderer and res = res and tr' = tr' and r' = r']
  have "renderOneObject example_env example_objectGroup
       (example_object\<lparr>X := Finite 100, Y := Finite 200\<rparr>) [] example_renderer
     = renderOneObject example_env example_objectGroup example_object [] example_renderer"
    by simp
  with run drawn show ?thesis
    by blast
qed

section \<open>The order of the objects of a group\<close>

lemma float_unrank_rank: "float_unrank (float_rank a) = a"
  by (cases a) (simp_all add: float_unrank_def)

lemma float_less_rank:
  "a \<noteq> NaN \<Longrightarrow> b \<noteq> NaN \<Longrightarrow> float_less a b \<longleftrightarrow> float_rank a < float_rank b"
  by (cases a; cases b) simp_all

lemma float_neq_rank:
  "a \<noteq> NaN \<Longrightarrow> b \<noteq> NaN \<Longrightarrow> float_neq a b \<longleftrightarrow> float_rank a \<noteq> float_rank b"
  by (cases a; cases b) (simp_all add: float_neq_def)

lemma object_less_key:
  "no_NaN a \<Longrightarrow> no_NaN b \<Longrightarrow> object_less a b \<longleftrightarrow> object_key a < object_key b"
  by (auto simp: object_less_def object_key_def no_NaN_def float_less_rank float_neq_rank)

lemma insert_sorted_insort_key:
  "no_NaN x \<Longrightarrow> \<forall>y \<in> set ys. no_NaN y \<Longrightarrow>
   insert_sorted object_less x ys = insort_key object_key x ys"
  by (induction ys) (auto simp: object_less_key)

lemma SortAnySlice_sort_key:
  "\<forall>x \<in> set xs. no_NaN x \<Longrightarrow> SortAnySlice xs object_less = sort_key object_key xs"
proof (induction xs)
  case Nil
  show ?case by (simp add: SortAnySlice_def)
next
  case (Cons x xs)
  then have ih: "SortAnySlice xs object_less = sort_key object_key xs"
    by simp
  have "SortAnySlice (x # xs) object_less = insert_sorted object_less x (SortAnySlice xs object_less)"
    by (simp add: SortAnySlice_def)
  also have "\<dots> = insort_key object_key x (sort_key object_key xs)"
    unfolding ih using Cons.prems by (intro insert_sorted_insort_key) simp_all
  finally show ?case
    by simp
qed

lemma object_key_le:
  assumes "no_NaN a" "no_NaN b" "object_key a \<le> object_key b"
  shows "float_less (Y a) (Y b) \<or> (Y a = Y b \<and> \<not> float_less (X b) (X a))"
proof -
  from assms have "\<not> object_less b a"
    by (simp add: object_less_key)
  with assms(1,2) show ?thesis
    unfolding object_less_def no_NaN_def float_neq_def
    by (cases "Y a"; cases "Y b") (auto split: if_splits)
qed

lemma coords_of_key:
  "(Y obj, X obj) = (float_unrank (fst (object_key obj)), float_unrank (snd (object_key obj)))"
  by (simp add: object_key_def float_unrank_rank)


lemma float_rank_le:
  assumes "a \<noteq> NaN" "b \<noteq> NaN" "\<not> float_less b a"
  shows "float_less a b \<or> a = b"
  using assms by (cases a; cases b) auto

text \<open>
  C5. The objects of a group are rendered in the order in which \<open>SortAnySlice\<close>
  returns them. With a coordinate that is NaN this order is not ascending: every
  comparison with the object is false, so the objects around it are not moved. Of
  three objects in the rows 5, NaN and 3 the object in row 5 is rendered before the
  object in row 3.
\<close>

theorem render_order_NaN_counterexample:
  "SortAnySlice [object_at 5 0, example_object\<lparr>Y := NaN\<rparr>, object_at 3 0] object_less
     = [object_at 5 0, example_object\<lparr>Y := NaN\<rparr>, object_at 3 0] \<and>
   priv_renderObjectGroup example_env
       (example_objectGroup\<lparr>Objects :=
          [object_at 5 0, example_object\<lparr>Y := NaN\<rparr>, object_at 3 0]\<rparr>) [] example_renderer
     = renderObjects example_env
       (example_objectGroup\<lparr>Objects :=
          [object_at 5 0, example_object\<lparr>Y := NaN\<rparr>, object_at 3 0]\<rparr>)
       [object_at 5 0, example_object\<lparr>Y := NaN\<rparr>, object_at 3 0] [] example_renderer \<and>
   float_less (Y (object_at 3 0)) (Y (object_at 5 0))"
  by (simp add: priv_renderObjectGroup_def SortAnySlice_def object_less_def float_neq_def
        object_at_def example_object_def)

text \<open>
  C5, amended. Let no object of a group have a coordinate that is NaN. Then the
  objects are rendered in the order of the sorted sequence, which is ascending in
  \<open>Y\<close> and, among objects of one \<open>Y\<close>, ascending in \<open>X\<close>; it holds the objects of the
  group, each as often as the group does; objects at the same position keep the order
  they have in the group; and the positions, in rendering order, are the same for
  every order in which the group may list its objects.
\<close>

theorem render_order_sorted:
  assumes finite: "\<forall>obj \<in> set (Objects objectGroup). no_NaN obj"
  shows "priv_renderObjectGroup env objectGroup tr r =
           renderObjects env objectGroup (SortAnySlice (Objects objectGroup) object_less) tr r \<and>
         sorted_wrt
           (\<lambda>a b. float_less (Y a) (Y b) \<or>
                  (Y a = Y b \<and> (float_less (X a) (X b) \<or> X a = X b)))
           (SortAnySlice (Objects objectGroup) object_less) \<and>
         mset (SortAnySlice (Objects objectGroup) object_less) = mset (Objects objectGroup) \<and>
         (\<forall>y x. filter (\<lambda>obj. Y obj = y \<and> X obj = x)
                  (SortAnySlice (Objects objectGroup) object_less)
                = filter (\<lambda>obj. Y obj = y \<and> X obj = x) (Objects objectGroup)) \<and>
         (\<forall>objs. mset objs = mset (Objects objectGroup) \<longrightarrow>
            map (\<lambda>obj. (Y obj, X obj)) (SortAnySlice objs object_less)
              = map (\<lambda>obj. (Y obj, X obj)) (SortAnySlice (Objects objectGroup) object_less))"
proof -
  let ?xs = "Objects objectGroup"
  let ?S = "SortAnySlice ?xs object_less"
  have S: "?S = sort_key object_key ?xs"
    using finite by (rule SortAnySlice_sort_key)
  have order: "priv_renderObjectGroup env objectGroup tr r = renderObjects env objectGroup ?S tr r"
    by (simp add: priv_renderObjectGroup_def Let_def)
  have "sorted_wrt (\<lambda>a b. object_key a \<le> object_key b) ?S"
    unfolding S using sorted_sort_key [of object_key ?xs] by (simp only: sorted_map)
  then have asc: "sorted_wrt
           (\<lambda>a b. float_less (Y a) (Y b) \<or>
                  (Y a = Y b \<and> (float_less (X a) (X b) \<or> X a = X b))) ?S"
  proof (rule sorted_wrt_mono_rel [rotated])
    fix a b
    assume "a \<in> set ?S" "b \<in> set ?S" and le: "object_key a \<le> object_key b"
    with finite have ab: "no_NaN a" "no_NaN b"
      by (simp_all add: S)
    from object_key_le [OF ab le] ab
    show "float_less (Y a) (Y b) \<or> (Y a = Y b \<and> (float_less (X a) (X b) \<or> X a = X b))"
      by (auto simp: no_NaN_def dest: float_rank_le)
  qed
  have perm: "mset ?S = mset ?xs"
    by (simp add: S)
  have stable: "filter (\<lambda>obj. Y obj = y \<and> X obj = x) ?S = filter (\<lambda>obj. Y obj = y \<and> X obj = x) ?xs"
    for y x
  proof -
    have eq: "(Y obj = y \<and> X obj = x) \<longleftrightarrow> object_key obj = (float_rank y, float_rank x)" for obj
      by (auto simp: object_key_def) (metis float_unrank_rank)+
    show ?thesis
      unfolding eq S by (rule sort_key_stable)
  qed
  have indep: "map (\<lambda>obj. (Y obj, X obj)) (SortAnySlice objs object_less)
                 = map (\<lambda>obj. (Y obj, X obj)) ?S"
    if same: "mset objs = mset ?xs" for objs
  proof -
    from same have "set objs = set ?xs"
      by (rule mset_eq_setD)
    with finite have "\<forall>obj \<in> set objs. no_NaN obj"
      by simp
    then have S': "SortAnySlice objs object_less = sort_key object_key objs"
      by (rule SortAnySlice_sort_key)
    have "sort (map object_key ?xs) = map object_key (sort_key object_key ?xs)"
      by (rule properties_for_sort) simp_all
    moreover have "sort (map object_key ?xs) = map object_key (sort_key object_key objs)"
      by (rule properties_for_sort) (simp_all add: same)
    ultimately have keys: "map object_key (sort_key object_key objs)
        = map object_key (sort_key object_key ?xs)"
      by simp
    have "map (\<lambda>obj. (Y obj, X obj)) zs
        = map (\<lambda>k. (float_unrank (fst k), float_unrank (snd k))) (map object_key zs)" for zs
      by (simp add: coords_of_key [symmetric] comp_def)
    with keys show ?thesis
      unfolding S S' by metis
  qed
  from order asc perm stable indep show ?thesis
    by blast
qed

theorem render_order_sorted_witness:
  "no_NaN (object_at 5 10) \<and> no_NaN (object_at 3 1) \<and> no_NaN (object_at 5 2) \<and>
   mset [object_at 5 2, object_at 5 10, object_at 3 1]
     = mset (Objects (example_objectGroup\<lparr>Objects :=
        [object_at 5 10, object_at 3 1, object_at 5 2]\<rparr>)) \<and>
   SortAnySlice (Objects (example_objectGroup\<lparr>Objects :=
        [object_at 5 10, object_at 3 1, object_at 5 2]\<rparr>)) object_less
     = [object_at 3 1, object_at 5 2, object_at 5 10] \<and>
   map (\<lambda>obj. (Y obj, X obj))
       (SortAnySlice [object_at 5 2, object_at 5 10, object_at 3 1] object_less)
     = [(Finite 3, Finite 1), (Finite 5, Finite 2), (Finite 5, Finite 10)]"
proof -
  let ?og = "example_objectGroup\<lparr>Objects := [object_at 5 10, object_at 3 1, object_at 5 2]\<rparr>"
  have finite: "\<forall>obj \<in> set (Objects ?og). no_NaN obj"
    by (simp add: no_NaN_def object_at_def)
  have same: "mset [object_at 5 2, object_at 5 10, object_at 3 1] = mset (Objects ?og)"
    by simp
  have sorted: "SortAnySlice (Objects ?og) object_less
      = [object_at 3 1, object_at 5 2, object_at 5 10]"
    by (simp add: SortAnySlice_def object_less_def float_neq_def object_at_def)
  from render_order_sorted [OF finite, of example_env "[]" example_renderer] same
  have "map (\<lambda>obj. (Y obj, X obj))
          (SortAnySlice [object_at 5 2, object_at 5 10, object_at 3 1] object_less)
      = map (\<lambda>obj. (Y obj, X obj)) (SortAnySlice (Objects ?og) object_less)"
    by blast
  also have "\<dots> = [(Finite 3, Finite 1), (Finite 5, Finite 2), (Finite 5, Finite 10)]"
    unfolding sorted by (simp add: object_at_def)
  finally show ?thesis
    using finite same sorted by simp
qed

end
